theory Spec2Isabelle
  imports Main "HOL-Library.Char_ord" "HOL-Library.List_Lexorder"
begin

section \<open>Python strings\<close>

text \<open>
  A Python \<open>str\<close> is modelled as a \<open>string\<close>; every \<open>char\<close> stands for one code point
  below 256. The functions below are the \<open>str\<close> methods and operators that the repository
  uses: \<open>strip\<close>, \<open>startswith\<close>, \<open>in\<close>, \<open>replace\<close>, \<open>join\<close> and \<open>lower\<close>.
\<close>

definition py_isspace :: "char \<Rightarrow> bool" where
  \<comment> \<open>\<open>str.isspace\<close> on one code point below 256: TAB..CR, FS..US, space, NEL, NBSP.\<close>
  "py_isspace c =
     (let n = (of_char c :: nat)
      in (9 \<le> n \<and> n \<le> 13) \<or> (28 \<le> n \<and> n \<le> 32) \<or> n = 133 \<or> n = 160)"

definition lstrip :: "string \<Rightarrow> string" where
  "lstrip s = dropWhile py_isspace s"

definition rstrip :: "string \<Rightarrow> string" where
  "rstrip s = rev (dropWhile py_isspace (rev s))"

definition strip :: "string \<Rightarrow> string" where
  "strip s = rstrip (lstrip s)"

definition startswith :: "string \<Rightarrow> string \<Rightarrow> bool" where
  "startswith s p = (take (length p) s = p)"

fun py_in :: "string \<Rightarrow> string \<Rightarrow> bool" where
  \<comment> \<open>\<open>sub in s\<close>: some slice of \<open>s\<close> equals \<open>sub\<close>.\<close>
  "py_in sub [] = (sub = [])"
| "py_in sub (c # cs) = (startswith (c # cs) sub \<or> py_in sub cs)"

function replace_str :: "string \<Rightarrow> string \<Rightarrow> string \<Rightarrow> string" where
  \<comment> \<open>\<open>s.replace(old, new)\<close>: every non-overlapping occurrence, scanning from the left.\<close>
  "replace_str old new s =
     (if old = [] then new @ concat (map (\<lambda>c. c # new) s)
      else if s = [] then []
      else if startswith s old then new @ replace_str old new (drop (length old) s)
      else hd s # replace_str old new (tl s))"
  by pat_completeness auto
termination
  by (relation "measure (\<lambda>(old, new, s). length s)") auto

declare replace_str.simps [simp del]

fun py_join :: "string \<Rightarrow> string list \<Rightarrow> string" where
  \<comment> \<open>\<open>sep.join(xs)\<close>\<close>
  "py_join sep [] = []"
| "py_join sep [x] = x"
| "py_join sep (x # y # ys) = x @ sep @ py_join sep (y # ys)"

definition py_lower_char :: "char \<Rightarrow> char" where
  \<comment> \<open>\<open>str.lower\<close> on one code point below 256: A..Z and the Latin-1 capitals\<close>
  "py_lower_char c =
     (let n = (of_char c :: nat)
      in if 65 \<le> n \<and> n \<le> 90 then char_of (n + 32)
         else if 192 \<le> n \<and> n \<le> 214 then char_of (n + 32)
         else if 216 \<le> n \<and> n \<le> 222 then char_of (n + 32)
         else c)"

definition py_lower :: "string \<Rightarrow> string" where
  "py_lower s = map py_lower_char s"

section \<open>Values, exceptions and the world outside the dispatcher\<close>

datatype pyval =
    VNone
  | VBool bool
  | VInt int
  | VStr string
  | VBoundMethod string  \<comment> \<open>a bound method of the \<open>Tools\<close> object, by name\<close>
  | VOther nat           \<comment> \<open>any other object (list, dict, handle), by identity\<close>

datatype exn =
    Error string string  \<comment> \<open>an instance of \<open>Exception\<close>: class name and \<open>str(e)\<close>\<close>
  | Interrupt string     \<comment> \<open>a \<open>BaseException\<close> outside \<open>Exception\<close>, e.g. KeyboardInterrupt\<close>

datatype page_ref = NoPage | Page
  \<comment> \<open>the \<open>page\<close> argument: \<open>None\<close>, or the caller's live Playwright page\<close>

datatype event =
    WaitForSelector string int        \<comment> \<open>\<open>page.wait_for_selector(sel, timeout=t)\<close>\<close>
  | PageClick string int              \<comment> \<open>\<open>page.click(sel, timeout=t)\<close>\<close>
  | PageFill string string int        \<comment> \<open>\<open>page.fill(sel, value, timeout=t)\<close>\<close>
  | PageLocator string                \<comment> \<open>\<open>page.locator(sel)\<close>\<close>
  | LocatorClick string int           \<comment> \<open>\<open>page.locator(sel).click(timeout=t)\<close>\<close>
  | InnerHtml string                  \<comment> \<open>\<open>page.inner_html(root)\<close>\<close>
  | Evaluate pyval "int option"       \<comment> \<open>\<open>page.evaluate(code[, timeout=t])\<close>\<close>
  | PageGoto string int string        \<comment> \<open>\<open>page.goto(url, timeout=t, wait_until=u)\<close>\<close>
  | PageReload int string             \<comment> \<open>\<open>page.reload(timeout=t, wait_until=u)\<close>\<close>
  | KeyboardPress string              \<comment> \<open>\<open>page.keyboard.press(key)\<close>\<close>
  | GetContext                        \<comment> \<open>\<open>page.context\<close>\<close>
  | ContextCookies                    \<comment> \<open>\<open>page.context.cookies()\<close>, after \<open>GetContext\<close>\<close>
  | GetUrl                            \<comment> \<open>\<open>page.url\<close>\<close>
  | ConsoleInput string               \<comment> \<open>the builtin \<open>input(prompt)\<close>\<close>

datatype outcome = Returns pyval | Raises exn

type_synonym stream = nat
  \<comment> \<open>a file-like object, by the order of its creation\<close>

record world =
  trace :: "event list"     \<comment> \<open>every call made so far on the page and on the console\<close>
  sys_stdout :: stream      \<comment> \<open>the current value of \<open>sys.stdout\<close>\<close>
  next_stream :: stream     \<comment> \<open>the identity the next \<open>StringIO()\<close> gets\<close>

record exec_result =
  raised :: "exn option"        \<comment> \<open>what \<open>exec\<close> raised, if anything\<close>
  buffer_text :: "string option"  \<comment> \<open>the text in \<open>output_buffer\<close> afterwards; \<open>None\<close> once closed\<close>

record env =
  page_beh :: "event list \<Rightarrow> event \<Rightarrow> outcome"
    \<comment> \<open>how the page and the console answer a call, given all earlier calls\<close>
  exec_beh :: "string \<Rightarrow> page_ref \<Rightarrow> (string \<times> pyval) list \<Rightarrow> world \<Rightarrow> exec_result \<times> world"
    \<comment> \<open>what \<open>exec(code, exec_globals)\<close> does: the code is arbitrary Python\<close>
  arity_text :: "string \<Rightarrow> nat \<Rightarrow> string"
    \<comment> \<open>the interpreter's wording of a TypeError for a call with a wrong argument count\<close>

type_synonym 'a action = "world \<Rightarrow> (exn + 'a) \<times> world"

definition ret :: "'a \<Rightarrow> 'a action" where
  "ret v w = (Inr v, w)"

definition raise_exn :: "exn \<Rightarrow> 'a action" where
  "raise_exn e w = (Inl e, w)"

definition and_then :: "'a action \<Rightarrow> ('a \<Rightarrow> 'b action) \<Rightarrow> 'b action" where
  "and_then m f w = (case m w of (Inl e, w') \<Rightarrow> (Inl e, w') | (Inr v, w') \<Rightarrow> f v w')"

definition except_Exception :: "'a action \<Rightarrow> (string \<Rightarrow> 'a action) \<Rightarrow> 'a action" where
  \<comment> \<open>\<open>try: m  except Exception as e: h(str(e))\<close>\<close>
  "except_Exception m h w =
     (case m w of
        (Inl (Error cls msg), w') \<Rightarrow> h msg w'
      | (Inl (Interrupt msg), w') \<Rightarrow> (Inl (Interrupt msg), w')
      | (Inr v, w') \<Rightarrow> (Inr v, w'))"

definition tagged :: "string \<Rightarrow> exn + pyval \<Rightarrow> bool" where
  \<comment> \<open>the result is a string that begins with the tag\<close>
  "tagged tag r = (case r of Inr (VStr s) \<Rightarrow> startswith s tag | _ \<Rightarrow> False)"

definition invoke :: "env \<Rightarrow> event \<Rightarrow> pyval action" where
  \<comment> \<open>one call on the live page or the console: logged, answered by the environment\<close>
  "invoke e c w =
     (case page_beh e (trace w) c of
        Returns v \<Rightarrow> (Inr v, w\<lparr>trace := trace w @ [c]\<rparr>)
      | Raises x \<Rightarrow> (Inl x, w\<lparr>trace := trace w @ [c]\<rparr>))"

definition page_attr :: "page_ref \<Rightarrow> string \<Rightarrow> unit action" where
  \<comment> \<open>looking up \<open>page.<name>\<close>; on \<open>None\<close> this is an AttributeError\<close>
  "page_attr page name =
     (case page of
        Page \<Rightarrow> ret ()
      | NoPage \<Rightarrow> raise_exn (Error ''AttributeError''
          ([CHR 0x27] @ ''NoneType'' @ [CHR 0x27] @ '' object has no attribute ''
           @ [CHR 0x27] @ name @ [CHR 0x27])))"

section \<open>The action dispatcher (\<open>tools.py\<close>)\<close>

record tools =
  llm_field :: pyval          \<comment> \<open>\<open>self._llm\<close>\<close>
  default_timeout_ms :: int
  safe :: bool

definition tools_init :: "int \<Rightarrow> bool \<Rightarrow> tools" where
  "tools_init timeout_ms safe_flag =
     \<lparr>llm_field = VNone, default_timeout_ms = timeout_ms, safe = safe_flag\<rparr>"

definition looks_callable :: "string \<Rightarrow> bool" where
  "looks_callable stripped =
     (startswith stripped ''(() =>'' \<or> startswith stripped ''() =>''
      \<or> startswith stripped ''function'')"

definition wrap_js_str :: "string \<Rightarrow> string" where
  "wrap_js_str code =
     (let stripped = strip code
      in if looks_callable stripped then stripped
         else if startswith stripped ''return '' then
           (let expr = drop (length ''return '') stripped in ''() => '' @ expr)
         else stripped)"

fun wrap_js_for_playwright :: "pyval \<Rightarrow> pyval" where
  \<comment> \<open>\<open>_wrap_js_for_playwright\<close>: anything that is not a \<open>str\<close> is handed back as it is\<close>
  "wrap_js_for_playwright (VStr code) = VStr (wrap_js_str code)"
| "wrap_js_for_playwright v = v"

definition execute_js :: "env \<Rightarrow> tools \<Rightarrow> page_ref \<Rightarrow> string \<Rightarrow> pyval action" where
  "execute_js e self page js_code =
     except_Exception
       (let code = wrap_js_for_playwright (VStr js_code)
        in and_then (page_attr page ''evaluate'')
             (\<lambda>_. invoke e (Evaluate code (Some (default_timeout_ms self)))))
       (\<lambda>msg. ret (VStr (''JS_ERROR: '' @ msg)))"

fun retry_loop :: "nat \<Rightarrow> exn option \<Rightarrow> 'a action \<Rightarrow> 'a action" where
  \<comment> \<open>the \<open>for\<close> loop of \<open>_with_retries\<close> with its remaining rounds and \<open>last_err\<close>\<close>
  "retry_loop 0 last_err func w =
     (case last_err of
        Some x \<Rightarrow> (Inl x, w)
      | None \<Rightarrow> (Inl (Error ''TypeError'' ''exceptions must derive from BaseException''), w))"
| "retry_loop (Suc n) last_err func w =
     (case func w of
        (Inr v, w') \<Rightarrow> (Inr v, w')
      | (Inl (Error cls msg), w') \<Rightarrow> retry_loop n (Some (Error cls msg)) func w'
      | (Inl (Interrupt msg), w') \<Rightarrow> (Inl (Interrupt msg), w'))"

definition with_retries :: "int \<Rightarrow> 'a action \<Rightarrow> 'a action" where
  "with_retries retries func = retry_loop (nat (retries + 1)) None func"

definition click :: "env \<Rightarrow> tools \<Rightarrow> page_ref \<Rightarrow> string \<Rightarrow> pyval action" where
  "click e self page css_selector =
     (if safe self then ret (VStr ''SAFE_MODE: click disabled'')
      else except_Exception
        (and_then (page_attr page ''wait_for_selector'') (\<lambda>_.
         and_then (with_retries 2
                     (invoke e (WaitForSelector css_selector (default_timeout_ms self)))) (\<lambda>_.
         and_then (page_attr page ''click'') (\<lambda>_.
         and_then (with_retries 2
                     (invoke e (PageClick css_selector (default_timeout_ms self)))) (\<lambda>_.
         and_then (page_attr page ''inner_html'') (\<lambda>_.
         invoke e (InnerHtml ''html'')))))))
        (\<lambda>msg. ret (VStr (''CLICK_ERROR: '' @ msg))))"

definition fill :: "env \<Rightarrow> tools \<Rightarrow> page_ref \<Rightarrow> string \<Rightarrow> string \<Rightarrow> pyval action" where
  "fill e self page css_selector val =
     (if safe self then ret (VStr ''SAFE_MODE: fill disabled'')
      else except_Exception
        (and_then (page_attr page ''wait_for_selector'') (\<lambda>_.
         and_then (with_retries 2
                     (invoke e (WaitForSelector css_selector (default_timeout_ms self)))) (\<lambda>_.
         and_then (page_attr page ''fill'') (\<lambda>_.
         and_then (with_retries 2
                     (invoke e (PageFill css_selector val (default_timeout_ms self)))) (\<lambda>_.
         and_then (page_attr page ''inner_html'') (\<lambda>_.
         invoke e (InnerHtml ''html'')))))))
        (\<lambda>msg. ret (VStr (''FILL_ERROR: '' @ msg))))"

definition submit :: "env \<Rightarrow> tools \<Rightarrow> page_ref \<Rightarrow> string \<Rightarrow> pyval action" where
  "submit e self page css_selector =
     (if safe self then ret (VStr ''SAFE_MODE: submit disabled'')
      else except_Exception
        (and_then (page_attr page ''wait_for_selector'') (\<lambda>_.
         and_then (with_retries 2
                     (invoke e (WaitForSelector css_selector (default_timeout_ms self)))) (\<lambda>_.
         and_then (page_attr page ''locator'') (\<lambda>_.
         and_then (invoke e (PageLocator css_selector)) (\<lambda>_.
         and_then (with_retries 2
                     (invoke e (LocatorClick css_selector (default_timeout_ms self)))) (\<lambda>_.
         and_then (page_attr page ''inner_html'') (\<lambda>_.
         invoke e (InnerHtml ''html''))))))))
        (\<lambda>msg. ret (VStr (''SUBMIT_ERROR: '' @ msg))))"

definition presskey :: "env \<Rightarrow> tools \<Rightarrow> page_ref \<Rightarrow> string \<Rightarrow> pyval action" where
  "presskey e self page key =
     and_then (page_attr page ''keyboard'') (\<lambda>_.
     and_then (invoke e (KeyboardPress key)) (\<lambda>_.
     and_then (page_attr page ''inner_html'') (\<lambda>_.
     invoke e (InnerHtml ''html''))))"

definition goto :: "env \<Rightarrow> tools \<Rightarrow> page_ref \<Rightarrow> string \<Rightarrow> pyval action" where
  "goto e self page url =
     except_Exception
       (and_then (page_attr page ''goto'') (\<lambda>_.
        and_then (with_retries 2
                    (invoke e (PageGoto url (default_timeout_ms self) ''load''))) (\<lambda>_.
        and_then (page_attr page ''inner_html'') (\<lambda>_.
        invoke e (InnerHtml ''html'')))))
       (\<lambda>msg. ret (VStr (''GOTO_ERROR: '' @ msg)))"

definition refresh :: "env \<Rightarrow> tools \<Rightarrow> page_ref \<Rightarrow> pyval action" where
  "refresh e self page =
     except_Exception
       (and_then (page_attr page ''reload'') (\<lambda>_.
        and_then (with_retries 2
                    (invoke e (PageReload (default_timeout_ms self) ''load''))) (\<lambda>_.
        and_then (page_attr page ''inner_html'') (\<lambda>_.
        invoke e (InnerHtml ''html'')))))
       (\<lambda>msg. ret (VStr (''REFRESH_ERROR: '' @ msg)))"

definition forbidden :: "string list" where
  "forbidden =
     [''sync_playwright('', ''async_playwright('', ''from playwright'', ''import playwright'']"

definition exec_prelude :: "env \<Rightarrow> page_ref \<Rightarrow> (string \<times> pyval) list action" where
  \<comment> \<open>the entries added to \<open>exec_globals\<close> under \<open>if page:\<close>, read in the order of the dict\<close>
  "exec_prelude e page =
     (case page of
        NoPage \<Rightarrow> ret []
      | Page \<Rightarrow>
          and_then (invoke e GetContext) (\<lambda>browser_context.
          and_then (invoke e GetContext) (\<lambda>_.
          and_then (invoke e ContextCookies) (\<lambda>cookies.
          and_then (invoke e GetUrl) (\<lambda>current_url.
          and_then (invoke e (Evaluate (VStr ''navigator.userAgent'') None)) (\<lambda>user_agent.
          ret [(''browser_context'', browser_context), (''cookies'', cookies),
               (''current_url'', current_url), (''user_agent'', user_agent)]))))))"

definition python_interpreter :: "env \<Rightarrow> tools \<Rightarrow> string \<Rightarrow> page_ref \<Rightarrow> pyval action" where
  "python_interpreter e self code page w =
     (if safe self then (Inr (VStr ''SAFE_MODE: python_interpreter disabled''), w)
      else if list_ex (\<lambda>f. py_in f code) forbidden then
        (Inr (VStr (''PYTHON_ERROR: Playwright launch is not allowed from python_interpreter.''
                    @ '' Use existing page context.'')), w)
      else
        let output_buffer = next_stream w;
            old_stdout = sys_stdout w;
            w1 = w\<lparr>sys_stdout := output_buffer, next_stream := Suc (next_stream w)\<rparr>
        in (case exec_prelude e page w1 of
              (Inl x, w2) \<Rightarrow> (Inl x, w2)
            | (Inr facts, w2) \<Rightarrow>
                (case exec_beh e code page facts w2 of
                   (r, w3) \<Rightarrow>
                     (let w4 = w3\<lparr>sys_stdout := old_stdout\<rparr>
                      in (case raised r of
                            Some (Error cls msg) \<Rightarrow> (Inr (VStr (''PYTHON_ERROR: '' @ msg)), w4)
                          | Some (Interrupt msg) \<Rightarrow> (Inl (Interrupt msg), w4)
                          | None \<Rightarrow>
                              (case buffer_text r of
                                 None \<Rightarrow>
                                   (Inr (VStr (''PYTHON_ERROR: ''
                                               @ ''I/O operation on closed file'')), w4)
                               | Some output \<Rightarrow>
                                   (Inr (VStr (if length output > 4000
                                               then take 4000 output @ ''... [truncated]''
                                               else output)), w4)))))))"

definition get_user_input :: "env \<Rightarrow> tools \<Rightarrow> string \<Rightarrow> pyval action" where
  "get_user_input e self prompt =
     and_then (invoke e (ConsoleInput prompt)) (\<lambda>_. ret (VStr (''Input done'' @ [CHR 0x21])))"

definition auth_needed :: "env \<Rightarrow> tools \<Rightarrow> pyval action" where
  "auth_needed e self =
     and_then
       (invoke e (ConsoleInput
          ''Authentication needed. Please login and press enter to continue.''))
       (\<lambda>_. ret (VStr (''Authentication done'' @ [CHR 0x21])))"

definition complete :: "tools \<Rightarrow> pyval action" where
  "complete self = ret (VStr ''Completed'')"

definition discover_forms_js :: string where
  "discover_forms_js =
     [CHR 0x0A]
     @ ''        () => {'' @ [CHR 0x0A]
     @ ''          const out = [];'' @ [CHR 0x0A]
     @ ''          document.querySelectorAll('' @ [CHR 0x27] @ ''form'' @ [CHR 0x27] @ '').forEach((form, idx) => {'' @ [CHR 0x0A]
     @ ''            const f = { index: idx, method: (form.method||'' @ [CHR 0x27] @ ''GET'' @ [CHR 0x27] @ '').toUpperCase(), action: form.action||'' @ [CHR 0x27] @ [CHR 0x27] @ '', fields: [] };'' @ [CHR 0x0A]
     @ ''            form.querySelectorAll('' @ [CHR 0x27] @ ''input, select, textarea, button'' @ [CHR 0x27] @ '').forEach(el => {'' @ [CHR 0x0A]
     @ ''              f.fields.push({'' @ [CHR 0x0A]
     @ ''                tag: el.tagName.toLowerCase(),'' @ [CHR 0x0A]
     @ ''                type: (el.type||'' @ [CHR 0x27] @ [CHR 0x27] @ '').toLowerCase(),'' @ [CHR 0x0A]
     @ ''                name: el.name||'' @ [CHR 0x27] @ [CHR 0x27] @ '','' @ [CHR 0x0A]
     @ ''                id: el.id||'' @ [CHR 0x27] @ [CHR 0x27] @ '','' @ [CHR 0x0A]
     @ ''                placeholder: el.placeholder||'' @ [CHR 0x27] @ [CHR 0x27] @ '','' @ [CHR 0x0A]
     @ ''                required: !!el.required'' @ [CHR 0x0A]
     @ ''              });'' @ [CHR 0x0A]
     @ ''            });'' @ [CHR 0x0A]
     @ ''            out.push(f);'' @ [CHR 0x0A]
     @ ''          });'' @ [CHR 0x0A]
     @ ''          return JSON.stringify(out);'' @ [CHR 0x0A]
     @ ''        }'' @ [CHR 0x0A]
     @ ''        ''"

definition discover_forms :: "env \<Rightarrow> tools \<Rightarrow> page_ref \<Rightarrow> pyval action" where
  "discover_forms e self page =
     except_Exception
       (and_then (page_attr page ''evaluate'')
          (\<lambda>_. invoke e (Evaluate (VStr discover_forms_js) (Some (default_timeout_ms self)))))
       (\<lambda>msg. ret (VStr (''DISCOVER_FORMS_ERROR: '' @ msg)))"

subsection \<open>\<open>execute_tool\<close>: evaluating the descriptor text\<close>

text \<open>
  \<open>execute_tool\<close> hands the text \<open>"self." + tool_use\<close> to Python's \<open>eval\<close>, in a scope
  where \<open>self\<close> is the \<open>Tools\<close> object and \<open>page\<close> is the caller's page. The text may be
  any Python expression. The model reads the texts of two plain shapes itself: a name
  alone, and a call \<open>name(arg, ...)\<close> whose arguments are \<open>page\<close>, \<open>None\<close>, \<open>True\<close>,
  \<open>False\<close>, a decimal number or a quoted string without escapes. What such a text does
  is computed from the definitions above. Every other text, and every plain text that
  reaches something the model does not hold (an attribute that the interpreter gives every
  object, a call of \<open>__init__\<close>, \<open>_with_retries\<close>, \<open>execute_tool\<close>, \<open>_get_llm\<close> or
  \<open>extract_tool_use\<close>, an argument of another type than the parameter's annotation), is
  evaluated by the interpreter, which is a parameter: it may do anything to the world and
  to the \<open>Tools\<close> object. Names are read when they are ASCII identifiers and no keywords;
  other names, which Python normalises before it looks them up, are left to the interpreter
  too.
\<close>

datatype arg = APage | ANone | ABool bool | AInt int | AStr string

datatype descriptor =
    GetAttr string               \<comment> \<open>\<open>self.<name>\<close>\<close>
  | CallAttr string "arg list"   \<comment> \<open>\<open>self.<name>(<args>)\<close>\<close>

record interp =
  eval_beh :: "string \<Rightarrow> tools \<Rightarrow> page_ref \<Rightarrow> world \<Rightarrow> (exn + pyval) \<times> tools \<times> world"
    \<comment> \<open>what \<open>eval(source)\<close> does with \<open>self\<close> and \<open>page\<close> in scope\<close>
  builtin_attr :: "string \<Rightarrow> bool"
    \<comment> \<open>the attribute names that the interpreter gives every object (\<open>__class__\<close>, ...)\<close>

definition ascii_letter :: "char \<Rightarrow> bool" where
  "ascii_letter c =
     (let n = (of_char c :: nat) in (97 \<le> n \<and> n \<le> 122) \<or> (65 \<le> n \<and> n \<le> 90))"

definition ascii_digit :: "char \<Rightarrow> bool" where
  "ascii_digit c = (let n = (of_char c :: nat) in 48 \<le> n \<and> n \<le> 57)"

definition ident_char :: "char \<Rightarrow> bool" where
  "ident_char c = (ascii_letter c \<or> ascii_digit c \<or> c = CHR ''_'')"

definition py_keywords :: "string list" where
  "py_keywords =
     [''False'', ''None'', ''True'', ''and'', ''as'', ''assert'', ''async'', ''await'',
      ''break'', ''class'', ''continue'', ''def'', ''del'', ''elif'', ''else'', ''except'',
      ''finally'', ''for'', ''from'', ''global'', ''if'', ''import'', ''in'', ''is'',
      ''lambda'', ''nonlocal'', ''not'', ''or'', ''pass'', ''raise'', ''return'', ''try'',
      ''while'', ''with'', ''yield'']"

definition is_identifier :: "string \<Rightarrow> bool" where
  \<comment> \<open>an ASCII identifier that is no keyword\<close>
  "is_identifier s =
     (case s of
        [] \<Rightarrow> False
      | c # cs \<Rightarrow>
          (ascii_letter c \<or> c = CHR ''_'') \<and> list_all ident_char cs \<and> s \<notin> set py_keywords)"

definition plain_char :: "char \<Rightarrow> bool" where
  \<comment> \<open>printable ASCII other than the backslash\<close>
  "plain_char c = (let n = (of_char c :: nat) in 32 \<le> n \<and> n \<le> 126 \<and> n \<noteq> 92)"

definition parse_string_literal :: "string \<Rightarrow> (arg \<times> string) option" where
  \<comment> \<open>\<open>'...'\<close> or \<open>"..."\<close> of plain characters; the rest of the text follows\<close>
  "parse_string_literal s =
     (case s of
        [] \<Rightarrow> None
      | q # cs \<Rightarrow>
          if q = CHR 0x27 \<or> q = CHR 0x22 then
            (case dropWhile (\<lambda>c. plain_char c \<and> c \<noteq> q) cs of
               [] \<Rightarrow> None
             | r # rest \<Rightarrow>
                 if r = q then Some (AStr (takeWhile (\<lambda>c. plain_char c \<and> c \<noteq> q) cs), rest)
                 else None)
          else None)"

definition decimal_value :: "string \<Rightarrow> int" where
  "decimal_value ds = foldl (\<lambda>a c. 10 * a + (int (of_char c) - 48)) 0 ds"

definition parse_word :: "string \<Rightarrow> (arg \<times> string) option" where
  \<comment> \<open>\<open>page\<close>, \<open>None\<close>, \<open>True\<close>, \<open>False\<close> or a decimal number without a leading zero\<close>
  "parse_word s =
     (let word = takeWhile ident_char s; rest = dropWhile ident_char s
      in if word = ''page'' then Some (APage, rest)
         else if word = ''None'' then Some (ANone, rest)
         else if word = ''True'' then Some (ABool True, rest)
         else if word = ''False'' then Some (ABool False, rest)
         else if word = ''0'' then Some (AInt 0, rest)
         else (case word of
                 [] \<Rightarrow> None
               | d # ds \<Rightarrow>
                   if d = CHR ''0'' then None
                   else if list_all ascii_digit word then Some (AInt (decimal_value word), rest)
                   else None))"

definition parse_arg :: "string \<Rightarrow> (arg \<times> string) option" where
  "parse_arg s =
     (case parse_string_literal s of
        Some r \<Rightarrow> Some r
      | None \<Rightarrow> parse_word s)"

function parse_more :: "string \<Rightarrow> arg list option" where
  \<comment> \<open>one argument, then the end of the text or a comma, blanks and more arguments\<close>
  "parse_more s =
     (case parse_arg s of
        None \<Rightarrow> None
      | Some (a, rest) \<Rightarrow>
          (case rest of
             [] \<Rightarrow> Some [a]
           | c # cs \<Rightarrow>
               if c = CHR '','' then
                 map_option ((#) a) (parse_more (dropWhile (\<lambda>b. b = CHR '' '') cs))
               else None))"
  by pat_completeness auto

termination parse_more
proof (relation "measure length")
  show "wf (measure length)"
    by simp
next
  fix s x2 a rest c cs
  assume arg: "parse_arg s = Some x2" and pair: "(a, rest) = x2"
    and rest: "rest = c # cs" and "c = CHR '',''"
  have lit: "length rest < length s" if p: "parse_string_literal s = Some (a, rest)"
  proof -
    from p obtain q ds where s: "s = q # ds"
      by (cases s) (simp_all add: parse_string_literal_def)
    let ?P = "\<lambda>c. plain_char c \<and> c \<noteq> q"
    from p s obtain r where "dropWhile ?P ds = r # rest"
      by (auto simp add: parse_string_literal_def split: list.splits if_splits)
    then have "Suc (length rest) = length (dropWhile ?P ds)"
      by simp
    also have "\<dots> \<le> length ds"
      by (rule length_dropWhile_le)
    finally show ?thesis
      using s by simp
  qed
  have word: "length rest < length s" if p: "parse_word s = Some (a, rest)"
  proof -
    from p have r: "rest = dropWhile ident_char s" and w: "takeWhile ident_char s \<noteq> []"
      by (auto simp add: parse_word_def Let_def split: if_splits list.splits)
    have "length (takeWhile ident_char s) + length (dropWhile ident_char s) = length s"
      by (metis length_append takeWhile_dropWhile_id)
    with r w show ?thesis
      by (cases "takeWhile ident_char s") simp_all
  qed
  from arg pair have "length rest < length s"
    by (auto simp add: parse_arg_def split: option.splits dest: lit word)
  moreover have "length (dropWhile (\<lambda>b. b = CHR '' '') cs) \<le> length cs"
    by (rule length_dropWhile_le)
  ultimately show "(dropWhile (\<lambda>b. b = CHR '' '') cs, s) \<in> measure length"
    using rest by simp
qed

declare parse_more.simps [simp del]

definition parse_args :: "string \<Rightarrow> arg list option" where
  "parse_args s = (if s = [] then Some [] else parse_more s)"

definition parse_descriptor :: "string \<Rightarrow> descriptor option" where
  \<comment> \<open>a name, or a name and arguments in one pair of brackets; \<open>None\<close> for any other text\<close>
  "parse_descriptor text =
     (let name = takeWhile ident_char text; rest = dropWhile ident_char text
      in if is_identifier name then
           (case rest of
              [] \<Rightarrow> Some (GetAttr name)
            | c # cs \<Rightarrow>
                (case rev cs of
                   [] \<Rightarrow> None
                 | d # inner \<Rightarrow>
                     if c = CHR ''('' \<and> d = CHR '')''
                     then map_option (CallAttr name) (parse_args (rev inner))
                     else None))
         else None)"

definition method_names :: "string list" where
  \<comment> \<open>the \<open>def\<close>s of class \<open>Tools\<close>\<close>
  "method_names =
     [''__init__'', ''_wrap_js_for_playwright'', ''execute_js'', ''_with_retries'', ''click'',
      ''fill'', ''submit'', ''presskey'', ''goto'', ''refresh'', ''python_interpreter'',
      ''get_user_input'', ''auth_needed'', ''complete'', ''discover_forms'',
      ''execute_tool'', ''_get_llm'', ''extract_tool_use'']"

definition field_names :: "string list" where
  \<comment> \<open>the instance attributes set by \<open>__init__\<close>\<close>
  "field_names = [''_llm'', ''default_timeout_ms'', ''safe'']"


definition no_attribute :: "string \<Rightarrow> string" where
  "no_attribute name =
     [CHR 0x27] @ ''Tools'' @ [CHR 0x27] @ '' object has no attribute ''
     @ [CHR 0x27] @ name @ [CHR 0x27]"

definition getattr_self :: "interp \<Rightarrow> tools \<Rightarrow> string \<Rightarrow> (exn + pyval) option" where
  \<comment> \<open>\<open>self.<name>\<close>; \<open>None\<close> when the attribute is one that the model does not hold\<close>
  "getattr_self i self name =
     (if name = ''_llm'' then Some (Inr (llm_field self))
      else if name = ''default_timeout_ms'' then Some (Inr (VInt (default_timeout_ms self)))
      else if name = ''safe'' then Some (Inr (VBool (safe self)))
      else if name \<in> set method_names then Some (Inr (VBoundMethod name))
      else if builtin_attr i name then None
      else Some (Inl (Error ''AttributeError'' (no_attribute name))))"

fun as_page :: "page_ref \<Rightarrow> arg \<Rightarrow> page_ref option" where
  "as_page page APage = Some page"
| "as_page page ANone = Some NoPage"
| "as_page page _ = None"

fun as_str :: "arg \<Rightarrow> string option" where
  "as_str (AStr s) = Some s"
| "as_str _ = None"

fun as_val :: "arg \<Rightarrow> pyval option" where
  "as_val APage = None"
| "as_val ANone = Some VNone"
| "as_val (ABool b) = Some (VBool b)"
| "as_val (AInt i) = Some (VInt i)"
| "as_val (AStr s) = Some (VStr s)"

definition bad_arity :: "env \<Rightarrow> string \<Rightarrow> arg list \<Rightarrow> (pyval action) option" where
  "bad_arity e name args =
     Some (raise_exn (Error ''TypeError'' (arity_text e name (length args))))"

definition call_page_str ::
  "(page_ref \<Rightarrow> string \<Rightarrow> pyval action) \<Rightarrow> page_ref \<Rightarrow> arg \<Rightarrow> arg \<Rightarrow> (pyval action) option"
where
  "call_page_str f page a b =
     (case (as_page page a, as_str b) of
        (Some p, Some s) \<Rightarrow> Some (f p s)
      | _ \<Rightarrow> None)"

definition call_method ::
  "env \<Rightarrow> tools \<Rightarrow> page_ref \<Rightarrow> string \<Rightarrow> arg list \<Rightarrow> (pyval action) option"
where
  "call_method e self page name args =
     (if name = ''_wrap_js_for_playwright'' then
        (case args of
           [a] \<Rightarrow> map_option (\<lambda>v. ret (wrap_js_for_playwright v)) (as_val a)
         | _ \<Rightarrow> bad_arity e name args)
      else if name = ''execute_js'' then
        (case args of
           [a, b] \<Rightarrow> call_page_str (execute_js e self) page a b
         | _ \<Rightarrow> bad_arity e name args)
      else if name = ''click'' then
        (case args of
           [a, b] \<Rightarrow> call_page_str (click e self) page a b
         | _ \<Rightarrow> bad_arity e name args)
      else if name = ''fill'' then
        (case args of
           [a, b, c] \<Rightarrow>
             (case (as_page page a, as_str b, as_str c) of
                (Some p, Some s, Some v) \<Rightarrow> Some (fill e self p s v)
              | _ \<Rightarrow> None)
         | _ \<Rightarrow> bad_arity e name args)
      else if name = ''submit'' then
        (case args of
           [a, b] \<Rightarrow> call_page_str (submit e self) page a b
         | _ \<Rightarrow> bad_arity e name args)
      else if name = ''presskey'' then
        (case args of
           [a, b] \<Rightarrow> call_page_str (presskey e self) page a b
         | _ \<Rightarrow> bad_arity e name args)
      else if name = ''goto'' then
        (case args of
           [a, b] \<Rightarrow> call_page_str (goto e self) page a b
         | _ \<Rightarrow> bad_arity e name args)
      else if name = ''refresh'' then
        (case args of
           [a] \<Rightarrow> map_option (refresh e self) (as_page page a)
         | _ \<Rightarrow> bad_arity e name args)
      else if name = ''python_interpreter'' then
        (case args of
           [a] \<Rightarrow> map_option (\<lambda>code. python_interpreter e self code NoPage) (as_str a)
         | [a, b] \<Rightarrow>
             (case (as_str a, as_page page b) of
                (Some code, Some p) \<Rightarrow> Some (python_interpreter e self code p)
              | _ \<Rightarrow> None)
         | _ \<Rightarrow> bad_arity e name args)
      else if name = ''get_user_input'' then
        (case args of
           [a] \<Rightarrow> map_option (get_user_input e self) (as_str a)
         | _ \<Rightarrow> bad_arity e name args)
      else if name = ''auth_needed'' then
        (case args of
           [] \<Rightarrow> Some (auth_needed e self)
         | _ \<Rightarrow> bad_arity e name args)
      else if name = ''complete'' then
        (case args of
           [] \<Rightarrow> Some (complete self)
         | _ \<Rightarrow> bad_arity e name args)
      else if name = ''discover_forms'' then
        (case args of
           [a] \<Rightarrow> map_option (discover_forms e self) (as_page page a)
         | _ \<Rightarrow> bad_arity e name args)
      else None)"

fun type_name :: "pyval \<Rightarrow> string option" where
  "type_name VNone = Some ''NoneType''"
| "type_name (VBool b) = Some ''bool''"
| "type_name (VInt i) = Some ''int''"
| "type_name (VStr s) = Some ''str''"
| "type_name (VBoundMethod m) = Some ''method''"
| "type_name (VOther n) = None"

definition not_callable :: "string \<Rightarrow> exn" where
  "not_callable t =
     Error ''TypeError'' ([CHR 0x27] @ t @ [CHR 0x27] @ '' object is not callable'')"

definition eval_self ::
  "interp \<Rightarrow> env \<Rightarrow> tools \<Rightarrow> page_ref \<Rightarrow> string \<Rightarrow> world \<Rightarrow> (exn + pyval) \<times> tools \<times> world"
where
  \<comment> \<open>\<open>eval("self." + tool_use)\<close>: in a call the attribute is looked up before it is called\<close>
  "eval_self i e self page tool_use w =
     (let beyond = eval_beh i (''self.'' @ tool_use) self page w
      in case parse_descriptor tool_use of
           None \<Rightarrow> beyond
         | Some (GetAttr name) \<Rightarrow>
             (case getattr_self i self name of
                None \<Rightarrow> beyond
              | Some (Inl x) \<Rightarrow> (Inl x, self, w)
              | Some (Inr v) \<Rightarrow> (Inr v, self, w))
         | Some (CallAttr name args) \<Rightarrow>
             (case getattr_self i self name of
                None \<Rightarrow> beyond
              | Some (Inl x) \<Rightarrow> (Inl x, self, w)
              | Some (Inr (VBoundMethod m)) \<Rightarrow>
                  (case call_method e self page m args of
                     None \<Rightarrow> beyond
                   | Some act \<Rightarrow> (case act w of (r, w') \<Rightarrow> (r, self, w')))
              | Some (Inr v) \<Rightarrow>
                  (case type_name v of
                     None \<Rightarrow> beyond
                   | Some t \<Rightarrow> (Inl (not_callable t), self, w))))"

definition execute_tool ::
  "interp \<Rightarrow> env \<Rightarrow> tools \<Rightarrow> page_ref \<Rightarrow> string \<Rightarrow> world \<Rightarrow> (exn + pyval) \<times> tools \<times> world"
where
  \<comment> \<open>the result, with the \<open>Tools\<close> object and the world as the evaluation leaves them\<close>
  "execute_tool i e self page tool_use w =
     (case eval_self i e self page tool_use w of
        (Inl (Error cls msg), self', w') \<Rightarrow>
          (Inr (VStr (''Error executing tool: '' @ msg)), self', w')
      | (Inl (Interrupt msg), self', w') \<Rightarrow> (Inl (Interrupt msg), self', w')
      | (Inr v, self', w') \<Rightarrow> (Inr v, self', w'))"

subsection \<open>Example environments\<close>

definition idle_env :: env where
  \<comment> \<open>a page that answers every call with \<open>None\<close>, code that prints nothing\<close>
  "idle_env =
     \<lparr>page_beh = (\<lambda>tr c. Returns VNone),
      exec_beh = (\<lambda>code page facts w. (\<lparr>raised = None, buffer_text = Some []\<rparr>, w)),
      arity_text = (\<lambda>name n. [])\<rparr>"

definition closed_page_env :: env where
  \<comment> \<open>a page that has been closed: its properties still read, every call on it raises\<close>
  "closed_page_env =
     \<lparr>page_beh = (\<lambda>tr c.
        if c = GetContext then Returns (VOther 0)
        else if c = GetUrl then Returns (VStr ''about:blank'')
        else Raises (Error ''TargetClosedError''
                       ''Target page, context or browser has been closed'')),
      exec_beh = (\<lambda>code page facts w. (\<lparr>raised = None, buffer_text = Some []\<rparr>, w)),
      arity_text = (\<lambda>name n. [])\<rparr>"

definition start_world :: world where
  "start_world = \<lparr>trace = [], sys_stdout = 0, next_stream = 1\<rparr>"

definition object_attr_names :: "string list" where
  \<comment> \<open>what \<open>dir\<close> lists for a plain object of a class in CPython 3.12, without the class's own\<close>
  "object_attr_names =
     [''__class__'', ''__delattr__'', ''__dict__'', ''__dir__'', ''__doc__'', ''__eq__'',
      ''__format__'', ''__ge__'', ''__getattribute__'', ''__getstate__'', ''__gt__'',
      ''__hash__'', ''__init_subclass__'', ''__le__'', ''__lt__'', ''__module__'', ''__ne__'',
      ''__new__'', ''__reduce__'', ''__reduce_ex__'', ''__repr__'', ''__setattr__'',
      ''__sizeof__'', ''__str__'', ''__subclasshook__'', ''__weakref__'']"

definition idle_interp :: interp where
  \<comment> \<open>an interpreter whose answer to every text beyond the model is \<open>None\<close>\<close>
  "idle_interp =
     \<lparr>eval_beh = (\<lambda>source self page w. (Inr VNone, self, w)),
      builtin_attr = (\<lambda>name. name \<in> set object_attr_names)\<rparr>"

section \<open>The evidence validator (\<open>reporter.py\<close>)\<close>

type_synonym message = "string \<times> string"
  \<comment> \<open>role and content\<close>

type_synonym llm = "message list \<Rightarrow> exn + string"
  \<comment> \<open>\<open>LLM.reason\<close>: the reply, or the exception it raises\<close>

text \<open>
  A \<open>Path\<close> is modelled as \<open>pathlib\<close> holds it on a POSIX system: the root (\<open>/\<close>, \<open>//\<close>
  or none) and the parts between the separators, where empty parts and \<open>.\<close> are
  dropped. So \<open>./security_results\<close> and \<open>security_results\<close> are one path.
\<close>

type_synonym path = "string \<times> string list"

fun split_on :: "char \<Rightarrow> string \<Rightarrow> string list" where
  \<comment> \<open>\<open>s.split(c)\<close>\<close>
  "split_on c [] = [[]]"
| "split_on c (x # xs) =
     (if x = c then [] # split_on c xs
      else (case split_on c xs of
              [] \<Rightarrow> [[x]]
            | p # ps \<Rightarrow> (x # p) # ps))"

definition path_root :: "string \<Rightarrow> string" where
  "path_root s =
     (if startswith s ''///'' then ''/''
      else if startswith s ''//'' then ''//''
      else if startswith s ''/'' then ''/''
      else [])"

definition path_parts :: "string \<Rightarrow> string list" where
  "path_parts s = filter (\<lambda>p. p \<noteq> [] \<and> p \<noteq> ''.'') (split_on CHR ''/'' s)"

definition path_of :: "string \<Rightarrow> path" where
  \<comment> \<open>\<open>Path(s)\<close>\<close>
  "path_of s = (path_root s, path_parts s)"

definition path_join :: "path \<Rightarrow> string \<Rightarrow> path" where
  \<comment> \<open>\<open>p / s\<close>: an absolute \<open>s\<close> replaces \<open>p\<close>\<close>
  "path_join p s = (if path_root s = [] then (fst p, snd p @ path_parts s) else path_of s)"

definition path_str :: "path \<Rightarrow> string" where
  \<comment> \<open>\<open>str(p)\<close>\<close>
  "path_str p =
     (if fst p = [] \<and> snd p = [] then ''.'' else fst p @ py_join ''/'' (snd p))"

definition parent :: "path \<Rightarrow> path" where
  "parent p = (fst p, butlast (snd p))"


datatype file_state =
    Missing             \<comment> \<open>nothing is there\<close>
  | Content string      \<comment> \<open>a readable file with this text\<close>
  | Unreadable exn      \<comment> \<open>opening or reading it raises this (a directory, no permission, ...)\<close>

record filesystem =
  dirs :: "path set"
  files :: "path \<Rightarrow> file_state"

record reporter =
  reports :: "string list"
  starting_url :: string
  output_dir :: path
  filename :: string

definition reporter_init :: "string \<Rightarrow> string \<Rightarrow> reporter" where
  "reporter_init url dir =
     \<lparr>reports = [],
      starting_url = url,
      output_dir = path_of dir,
      filename =
        replace_str ''/'' ''_''
          (replace_str ''http://'' '''' (replace_str ''https://'' '''' url))\<rparr>"

subsection \<open>Verdicts\<close>

definition judge_system_prompt :: string where
  "judge_system_prompt =
     [CHR 0x0A]
     @ ''        You are a highly critical security vulnerability judge. Your job is to analyze a conversation between a security testing agent and determine if a REAL, WORKING exploit was actually discovered and proven.'' @ [CHR 0x0A]
     @ [CHR 0x0A]
     @ ''        You must be extremely strict in your assessment. For a vulnerability to be considered valid, the conversation MUST show:'' @ [CHR 0x0A]
     @ ''        1. A clear attack vector that was successfully exploited'' @ [CHR 0x0A]
     @ ''        2. Concrete proof that the exploit worked (e.g. actual sensitive data accessed, actual code execution achieved, authentication bypass, privilege escalation, etc.)'' @ [CHR 0x0A]
     @ ''        3. Specific technical details about how the exploit was performed'' @ [CHR 0x0A]
     @ ''        4. The exact payload/steps that made it work'' @ [CHR 0x0A]
     @ [CHR 0x0A]
     @ ''        You must REJECT findings that:'' @ [CHR 0x0A]
     @ ''        - Are theoretical or potential vulnerabilities without proof'' @ [CHR 0x0A]
     @ ''        - Only show error messages or unexpected behavior'' @ [CHR 0x0A]
     @ ''        - Lack a working proof-of-concept exploit'' @ [CHR 0x0A]
     @ ''        - Are low severity issues like mixed content, missing headers etc.'' @ [CHR 0x0A]
     @ ''        - Make assumptions about what '' @ [CHR 0x22] @ ''could'' @ [CHR 0x22] @ '' be possible'' @ [CHR 0x0A]
     @ ''        - Don'' @ [CHR 0x27] @ ''t have explicit evidence of successful exploitation'' @ [CHR 0x0A]
     @ [CHR 0x0A]
     @ ''        If and ONLY if you see clear evidence of a working exploit, create a brief report with:'' @ [CHR 0x0A]
     @ ''        - Description of the proven vulnerability'' @ [CHR 0x0A]
     @ ''        - The exact endpoint/component affected'' @ [CHR 0x0A]
     @ ''        - The specific payload/steps that worked'' @ [CHR 0x0A]
     @ ''        - Evidence showing successful exploitation'' @ [CHR 0x0A]
     @ ''        '' @ [CHR 0x0A]
     @ ''        For instance, if we have found a CSRF issue, is the endpoint actually an authentication endpoint? Is it sensitive? Similarly, if we have found an XSS issue, can the user really control that input? If there is a js engine inside the page and we can get an alert, that'' @ [CHR 0x27] @ ''s not an issue at all. Vulnerabilities are rare, so you need to be extremely strict in your examination.'' @ [CHR 0x0A]
     @ [CHR 0x0A]
     @ ''        A good criteria you can use is that if we submit it to hackerone, do we get a bounty of more than $1000? If so, it'' @ [CHR 0x27] @ ''s probably a valid issue. But you rarely get that, right?!'' @ [CHR 0x0A]
     @ [CHR 0x0A]
     @ ''        Remember: Your job is to eliminate false positives. Be extremely skeptical and demanding of proof.'' @ [CHR 0x0A]
     @ ''        ''"

definition parse_system_prompt :: string where
  "parse_system_prompt =
     [CHR 0x0A]
     @ ''        You are a report parser whose task is to look at a report and its evaluation and return a boolean value indicating whether the report resulted in a successful exploit or not.'' @ [CHR 0x0A]
     @ [CHR 0x0A]
     @ ''        Only return 1 word, either '' @ [CHR 0x22] @ ''yes'' @ [CHR 0x22] @ '' if the report resulted in a successful exploit or '' @ [CHR 0x22] @ ''no'' @ [CHR 0x22] @ '' if it did not.'' @ [CHR 0x0A]
     @ ''        ''"


definition judge_request :: string where
  "judge_request =
     ''Please analyze our conversation history and determine if any vulnerabilities were ''
     @ ''definitively proven with working exploits, or if the agent was just working lazily ''
     @ ''and stopped prematurely.''"

definition parse_report :: "llm \<Rightarrow> string \<Rightarrow> exn + bool" where
  "parse_report reason report =
     (case reason [(''system'', parse_system_prompt), (''user'', report)] of
        Inl x \<Rightarrow> Inl x
      | Inr response \<Rightarrow> Inr (py_in ''yes'' response))"

definition os_error :: "string \<Rightarrow> string \<Rightarrow> path \<Rightarrow> exn" where
  "os_error cls what p =
     Error cls (what @ '': '' @ [CHR 0x27] @ path_str p @ [CHR 0x27])"


definition dir_exists :: "filesystem \<Rightarrow> path \<Rightarrow> bool" where
  \<comment> \<open>the current directory and the root are always there\<close>
  "dir_exists fs d = (snd d = [] \<or> d \<in> dirs fs)"

definition open_write :: "filesystem \<Rightarrow> path \<Rightarrow> string \<Rightarrow> exn + filesystem" where
  \<comment> \<open>\<open>open(p, "w")\<close> and one \<open>write\<close>: the directory must exist, the file is replaced\<close>
  "open_write fs p text =
     (if dir_exists fs (parent p) then
        (case files fs p of
           Unreadable x \<Rightarrow> Inl x
         | Missing \<Rightarrow> Inr (fs\<lparr>files := (files fs)(p := Content text)\<rparr>)
         | Content old \<Rightarrow> Inr (fs\<lparr>files := (files fs)(p := Content text)\<rparr>))
      else Inl (os_error ''FileNotFoundError'' ''[Errno 2] No such file or directory'' p))"


definition report_path :: "reporter \<Rightarrow> path" where
  \<comment> \<open>\<open>report_path\<close> of \<open>save_reports\<close>\<close>
  "report_path self = path_join (output_dir self) (filename self @ ''.txt'')"

definition save_reports :: "reporter \<Rightarrow> filesystem \<Rightarrow> exn + filesystem" where
  "save_reports self fs =
     open_write fs (report_path self)
       (py_join ([CHR 0x0A, CHR 0x0A] @ ''-------'' @ [CHR 0x0A, CHR 0x0A]) (reports self))"

definition report ::
  "llm \<Rightarrow> reporter \<Rightarrow> filesystem \<Rightarrow> message list \<Rightarrow>
   (exn + bool \<times> string) \<times> reporter \<times> filesystem \<times> message list"
where
  \<comment> \<open>the result, with the reporter, the files and the caller's \<open>history\<close> as they are left\<close>
  "report reason self fs history =
     (let history1 = history @ [(''user'', judge_request)]
      in case reason ([(''system'', judge_system_prompt)] @ history1) of
           Inl x \<Rightarrow> (Inl x, self, fs, history1)
         | Inr rep \<Rightarrow>
             (case parse_report reason rep of
                Inl x \<Rightarrow> (Inl x, self, fs, history1)
              | Inr successful_exploit \<Rightarrow>
                  (if successful_exploit then
                     (let self1 = self\<lparr>reports := reports self @ [rep]\<rparr>
                      in case save_reports self1 fs of
                           Inl x \<Rightarrow> (Inl x, self1, fs, history1)
                         | Inr fs1 \<Rightarrow> (Inr (successful_exploit, rep), self1, fs1, history1))
                   else (Inr (successful_exploit, rep), self, fs, history1))))"

subsection \<open>The summary report\<close>

definition summary_source_path :: "reporter \<Rightarrow> path" where
  \<comment> \<open>\<open>report_path\<close> of \<open>generate_summary_report\<close>\<close>
  "summary_source_path self =
     path_join (path_of ''security_results'') (filename self @ ''.txt'')"





subsection \<open>The crawl summary\<close>

text \<open>
  \<open>urlparse(u).netloc\<close> and \<open>urldefrag(u)\<close> belong to Python's library, not to the
  repository: they are parameters of the model. \<open>None\<close> stands for a raised exception.
\<close>

record urllib =
  netloc_of :: "string \<Rightarrow> string option"
  urldefrag_of :: "string \<Rightarrow> string option"

record request =
  url :: "string option"            \<comment> \<open>\<open>r.get('url')\<close>\<close>
  resource_type :: "string option"  \<comment> \<open>\<open>r.get('resource_type')\<close>\<close>

record crawl_summary =
  visited_urls :: "string list"
  js_endpoints :: "string list"

definition same_origin :: "urllib \<Rightarrow> string \<Rightarrow> string \<Rightarrow> bool" where
  "same_origin lib start_host u =
     (case netloc_of lib u of Some h \<Rightarrow> h = start_host | None \<Rightarrow> False)"

definition canon :: "urllib \<Rightarrow> string \<Rightarrow> string" where
  "canon lib u = (case urldefrag_of lib u of Some u2 \<Rightarrow> u2 | None \<Rightarrow> u)"

fun urls_of :: "request list \<Rightarrow> string list" where
  \<comment> \<open>\<open>[r.get('url') for r in rs if r.get('url')]\<close>: a missing or empty URL is dropped\<close>
  "urls_of [] = []"
| "urls_of (r # rs) =
     (case url r of
        Some u \<Rightarrow> (if u \<noteq> [] then u # urls_of rs else urls_of rs)
      | None \<Rightarrow> urls_of rs)"

definition generate_safe_crawl_summary ::
  "urllib \<Rightarrow> reporter \<Rightarrow> request list \<Rightarrow> bool \<Rightarrow> crawl_summary option"
where
  \<comment> \<open>the two URL lists of \<open>data\<close>; \<open>None\<close> when \<open>urlparse\<close> raises on the starting URL\<close>
  "generate_safe_crawl_summary lib self requests include_third_party =
     (case netloc_of lib (starting_url self) of
        None \<Rightarrow> None
      | Some start_host \<Rightarrow>
          (let urls_all = urls_of requests;
               urls_kept = (if \<not> include_third_party
                            then filter (same_origin lib start_host) urls_all else urls_all);
               xhr_fetch = filter (\<lambda>r. resource_type r = Some ''xhr''
                                        \<or> resource_type r = Some ''fetch'') requests;
               ep_urls = urls_of xhr_fetch;
               ep_kept = (if \<not> include_third_party
                          then filter (same_origin lib start_host) ep_urls else ep_urls)
           in Some \<lparr>visited_urls = sort (remdups (map (canon lib) urls_kept)),
                    js_endpoints = sort (remdups (map (canon lib) ep_kept))\<rparr>))"

subsection \<open>A library instance for plain URLs\<close>

text \<open>
  This instance follows \<open>urllib.parse\<close> on URLs of the plain kind \<open>scheme://host/path\<close>
  with an optional query and fragment. It does not cover what the library does beyond
  them: brackets in the host (where \<open>urlparse\<close> can raise), blanks and control characters
  (which it strips), an empty query or an upper-case scheme (which \<open>urldefrag\<close> rewrites).
  The theorems on the crawl summary hold for any library; the instance is used at the
  URLs of the repository's test only.
\<close>

definition scheme_char :: "char \<Rightarrow> bool" where
  "scheme_char c =
     (let n = (of_char c :: nat)
      in (97 \<le> n \<and> n \<le> 122) \<or> (65 \<le> n \<and> n \<le> 90) \<or> (48 \<le> n \<and> n \<le> 57)
         \<or> c = CHR ''+'' \<or> c = CHR ''-'' \<or> c = CHR ''.'')"

definition ascii_alpha :: "char \<Rightarrow> bool" where
  "ascii_alpha c =
     (let n = (of_char c :: nat) in (97 \<le> n \<and> n \<le> 122) \<or> (65 \<le> n \<and> n \<le> 90))"

definition after_scheme :: "string \<Rightarrow> string" where
  \<comment> \<open>\<open>urlsplit\<close>: a leading \<open>scheme:\<close> is cut off\<close>
  "after_scheme u =
     (let pre = takeWhile (\<lambda>c. c \<noteq> CHR '':'') u
      in if length pre < length u \<and> pre \<noteq> [] \<and> ascii_alpha (hd pre) \<and> list_all scheme_char pre
         then drop (Suc (length pre)) u else u)"

definition plain_netloc :: "string \<Rightarrow> string option" where
  \<comment> \<open>\<open>urlsplit\<close>: after \<open>//\<close> the host runs up to the next \<open>/\<close>, \<open>?\<close> or \<open>#\<close>\<close>
  "plain_netloc u =
     (let rest = after_scheme u
      in if startswith rest ''//''
         then Some (takeWhile (\<lambda>c. c \<noteq> CHR ''/'' \<and> c \<noteq> CHR ''?'' \<and> c \<noteq> CHR ''#'') (drop 2 rest))
         else Some [])"

definition plain_urldefrag :: "string \<Rightarrow> string option" where
  "plain_urldefrag u = Some (takeWhile (\<lambda>c. c \<noteq> CHR ''#'') u)"

definition plain_urllib :: urllib where
  "plain_urllib = \<lparr>netloc_of = plain_netloc, urldefrag_of = plain_urldefrag\<rparr>"

definition fake_proxy_requests :: "request list" where
  \<comment> \<open>the requests of \<open>FakeProxy\<close> in \<open>tests/test_reporter_safe_crawl.py\<close>\<close>
  "fake_proxy_requests =
     [\<lparr>url = Some ''https://example.com/'', resource_type = Some ''document''\<rparr>,
      \<lparr>url = Some ''https://example.com/api/data'', resource_type = Some ''xhr''\<rparr>,
      \<lparr>url = Some ''https://cdn.example.org/lib.js'', resource_type = Some ''script''\<rparr>]"

section \<open>The specification's wording, for comparison\<close>

definition spec_parse_verdict :: "string \<Rightarrow> bool" where
  \<comment> \<open>the affirmative token is looked for in a lower-cased copy of the reply\<close>
  "spec_parse_verdict reply = py_in ''yes'' (py_lower reply)"


section \<open>Facts about the string functions\<close>

lemma lstrip_Nil: "lstrip [] = []"
  by (simp add: lstrip_def)

lemma rstrip_Nil: "rstrip [] = []"
  by (simp add: rstrip_def)

lemma lstrip_hd: "lstrip s \<noteq> [] \<Longrightarrow> \<not> py_isspace (hd (lstrip s))"
  unfolding lstrip_def by (rule hd_dropWhile)

lemma rstrip_last: "rstrip s \<noteq> [] \<Longrightarrow> \<not> py_isspace (last (rstrip s))"
  unfolding rstrip_def by (simp add: last_rev hd_dropWhile)

lemma rstrip_decomp: "\<exists>zs. s = rstrip s @ zs"
proof -
  have "rev s = takeWhile py_isspace (rev s) @ dropWhile py_isspace (rev s)"
    by simp
  then have "s = rev (takeWhile py_isspace (rev s) @ dropWhile py_isspace (rev s))"
    by (metis rev_rev_ident)
  then show ?thesis
    unfolding rstrip_def by (metis rev_append)
qed

lemma rstrip_hd: "rstrip s \<noteq> [] \<Longrightarrow> hd (rstrip s) = hd s"
  using rstrip_decomp [of s] by (metis hd_append2)

lemma rstrip_id: "s \<noteq> [] \<Longrightarrow> \<not> py_isspace (last s) \<Longrightarrow> rstrip s = s"
  unfolding rstrip_def by (cases s rule: rev_cases) simp_all

lemma lstrip_id: "s \<noteq> [] \<Longrightarrow> \<not> py_isspace (hd s) \<Longrightarrow> lstrip s = s"
  unfolding lstrip_def by (cases s) simp_all

lemma strip_id: "s \<noteq> [] \<Longrightarrow> \<not> py_isspace (hd s) \<Longrightarrow> \<not> py_isspace (last s) \<Longrightarrow> strip s = s"
  by (simp add: strip_def lstrip_id rstrip_id)

lemma strip_Nil: "strip [] = []"
  by (simp add: strip_def lstrip_Nil rstrip_Nil)

lemma strip_ends:
  "strip s \<noteq> [] \<Longrightarrow> \<not> py_isspace (hd (strip s)) \<and> \<not> py_isspace (last (strip s))"
proof -
  assume ne: "strip s \<noteq> []"
  then have l: "lstrip s \<noteq> []"
    unfolding strip_def using rstrip_Nil by auto
  have "hd (strip s) = hd (lstrip s)"
    using ne unfolding strip_def by (rule rstrip_hd)
  with l have "\<not> py_isspace (hd (strip s))"
    by (simp add: lstrip_hd)
  moreover have "\<not> py_isspace (last (strip s))"
    using ne unfolding strip_def by (rule rstrip_last)
  ultimately show ?thesis by simp
qed

lemma strip_strip: "strip (strip s) = strip s"
proof (cases "strip s = []")
  case True
  then show ?thesis by (simp add: strip_Nil)
next
  case False
  then show ?thesis using strip_ends [OF False] by (simp add: strip_id)
qed

lemma rstrip_append: "rstrip b \<noteq> [] \<Longrightarrow> rstrip (a @ b) = a @ rstrip b"
  unfolding rstrip_def by (auto simp add: dropWhile_append)

lemma startswith_append: "startswith (p @ s) p"
  by (simp add: startswith_def)

lemma startswith_decomp: "startswith s p \<longleftrightarrow> (\<exists>e. s = p @ e)"
  unfolding startswith_def by (metis append_eq_conv_conj)

lemma callable_arrow: "looks_callable (''() => '' @ e)"
  by (simp add: looks_callable_def startswith_def)

lemma not_callable_return: "\<not> looks_callable (''return '' @ e)"
  by (simp add: looks_callable_def startswith_def)

lemma wrap_js_str_callable: "looks_callable (strip s) \<Longrightarrow> wrap_js_str s = strip s"
  by (simp add: wrap_js_str_def)

lemma wrap_js_str_return:
  "strip s = ''return '' @ e \<Longrightarrow> wrap_js_str s = ''() => '' @ e"
  by (simp add: wrap_js_str_def looks_callable_def startswith_def)

lemma wrap_js_str_plain:
  "\<not> looks_callable (strip s) \<Longrightarrow> \<not> startswith (strip s) ''return '' \<Longrightarrow>
   wrap_js_str s = strip s"
  by (simp add: wrap_js_str_def)

lemma space_is_space: "py_isspace CHR '' ''"
  by (simp add: py_isspace_def)

lemma paren_not_space: "\<not> py_isspace CHR ''(''"
  by (simp add: py_isspace_def)

lemma r_not_space: "\<not> py_isspace CHR ''r''"
  by (simp add: py_isspace_def)

lemma return_tail:
  assumes eq: "strip s = ''return '' @ e"
  shows "e \<noteq> [] \<and> \<not> py_isspace (last e)"
proof -
  from eq have ne: "strip s \<noteq> []" by auto
  have nl: "\<not> py_isspace (last (strip s))"
    using strip_ends [OF ne] by simp
  have "e \<noteq> []"
  proof
    assume "e = []"
    with eq have "strip s = ''return ''" by simp
    with nl show False by (simp add: space_is_space)
  qed
  moreover from this have "last (strip s) = last e"
    by (subst eq) simp
  ultimately show ?thesis using nl by simp
qed

lemma wrap_idem: "wrap_js_str (wrap_js_str s) = wrap_js_str s"
proof (cases "looks_callable (strip s)")
  case True
  then show ?thesis
    by (simp add: wrap_js_str_callable strip_strip)
next
  case nc: False
  show ?thesis
  proof (cases "startswith (strip s) ''return ''")
    case True
    then obtain e where eq: "strip s = ''return '' @ e"
      unfolding startswith_decomp by blast
    let ?out = "''() => '' @ e"
    have out: "wrap_js_str s = ?out"
      using eq by (rule wrap_js_str_return)
    have "strip ?out = ?out"
      using return_tail [OF eq] by (intro strip_id) (simp_all add: paren_not_space)
    then have "wrap_js_str ?out = ?out"
      using callable_arrow [of e] by (simp add: wrap_js_str_callable)
    with out show ?thesis by simp
  next
    case False
    then show ?thesis
      using nc by (simp add: wrap_js_str_plain strip_strip)
  qed
qed

lemma wrap_return_general:
  assumes "rstrip X \<noteq> []"
  shows "wrap_js_str (''return '' @ X) = ''() => '' @ rstrip X"
proof -
  have r: "rstrip (''return '' @ X) = ''return '' @ rstrip X"
    using assms by (rule rstrip_append)
  have "lstrip (''return '' @ X) = ''return '' @ X"
    by (intro lstrip_id) (simp_all add: r_not_space)
  then have s: "strip (''return '' @ X) = ''return '' @ rstrip X"
    using r by (simp add: strip_def)
  show ?thesis
    using s by (rule wrap_js_str_return)
qed

lemma py_in_iff: "py_in sub s \<longleftrightarrow> (\<exists>p q. s = p @ sub @ q)"
proof (induction s)
  case Nil
  then show ?case by auto
next
  case (Cons c cs)
  have here: "startswith (c # cs) sub \<longleftrightarrow> (\<exists>q. c # cs = sub @ q)"
    unfolding startswith_def by (metis append_eq_conv_conj)
  have split: "(\<exists>p q. c # cs = p @ sub @ q) \<longleftrightarrow>
      (\<exists>q. c # cs = sub @ q) \<or> (\<exists>p q. cs = p @ sub @ q)"
  proof
    assume "\<exists>p q. c # cs = p @ sub @ q"
    then obtain p q where pq: "c # cs = p @ sub @ q" by blast
    show "(\<exists>q. c # cs = sub @ q) \<or> (\<exists>p q. cs = p @ sub @ q)"
    proof (cases p)
      case Nil
      with pq show ?thesis by auto
    next
      case (Cons a p')
      with pq have "cs = p' @ sub @ q" by simp
      then show ?thesis by blast
    qed
  next
    assume "(\<exists>q. c # cs = sub @ q) \<or> (\<exists>p q. cs = p @ sub @ q)"
    then show "\<exists>p q. c # cs = p @ sub @ q"
    proof
      assume "\<exists>q. c # cs = sub @ q"
      then show ?thesis by (metis append_Nil)
    next
      assume "\<exists>p q. cs = p @ sub @ q"
      then show ?thesis by (metis append_Cons)
    qed
  qed
  show ?case
    using Cons.IH here split by simp
qed

lemma replace_str_Nil: "old \<noteq> [] \<Longrightarrow> replace_str old new [] = []"
  by (simp add: replace_str.simps)

lemma replace_str_Cons:
  "old \<noteq> [] \<Longrightarrow> replace_str old new (c # cs) =
     (if startswith (c # cs) old then new @ replace_str old new (drop (length old) (c # cs))
      else c # replace_str old new cs)"
  by (subst replace_str.simps) simp



lemma replace_str_char:
  "replace_str [a] [b] s = map (\<lambda>c. if c = a then b else c) s"
  by (induction s) (simp_all add: replace_str_Nil replace_str_Cons startswith_def)





section \<open>Script normalisation\<close>

text \<open>
  Claim C6, as the code has it. \<open>_wrap_js_for_playwright\<close> works on the trimmed text and
  applies its rules in order: trimmed text that begins with \<open>(() =>\<close>, \<open>() =>\<close> or
  \<open>function\<close> is returned (the trimmed text, not the input); otherwise trimmed text that
  begins with \<open>return \<close> becomes \<open>() => \<close> followed by the remainder; otherwise the trimmed
  text is returned. For every text \<open>X\<close> that is not empty and does not end in white space,
  \<open>return X\<close> is turned into \<open>() => X\<close>.
\<close>

theorem wrap_js_rule_set:
  assumes "X \<noteq> []" and "\<not> py_isspace (last X)"
  shows "wrap_js_for_playwright (VStr (''return '' @ X)) = VStr (''() => '' @ X)
       \<and> wrap_js_for_playwright (VStr s) =
           VStr (if looks_callable (strip s) then strip s
                 else if startswith (strip s) ''return ''
                   then ''() => '' @ drop (length ''return '') (strip s)
                 else strip s)"
proof -
  have "rstrip X = X"
    using assms by (rule rstrip_id)
  then have "wrap_js_str (''return '' @ X) = ''() => '' @ X"
    using assms(1) wrap_return_general [of X] by simp
  then show ?thesis
    by (simp add: wrap_js_str_def)
qed

text \<open>
  The rules at \<open>return document.title\<close> and at an arrow function with white space around it.
\<close>

theorem wrap_js_rule_set_witness:
  "wrap_js_for_playwright (VStr ''return document.title'') = VStr ''() => document.title''
   \<and> wrap_js_for_playwright (VStr '' () => 1 '') = VStr ''() => 1''"
proof -
  have a: "''document.title'' \<noteq> []"
    by simp
  have b: "\<not> py_isspace (last ''document.title'')"
    by (simp add: py_isspace_def)
  have c: "strip '' () => 1 '' = ''() => 1''"
    by (simp add: strip_def lstrip_def rstrip_def py_isspace_def)
  from wrap_js_rule_set [OF a b, of "'' () => 1 ''"] show ?thesis
    by (simp add: c looks_callable_def startswith_def)
qed

text \<open>
  Claim C6 as it was stated fails on text with white space at its ends: an arrow function
  with a leading blank does not come back unchanged, and \<open>return 1\<close> followed by a blank
  loses the blank.
\<close>

theorem wrap_js_rule_set_counterexample:
  "wrap_js_for_playwright (VStr '' () => 1'') \<noteq> VStr '' () => 1''
   \<and> wrap_js_for_playwright (VStr (''return '' @ ''1 '')) \<noteq> VStr (''() => '' @ ''1 '')"
  by (simp add: wrap_js_str_def strip_def lstrip_def rstrip_def py_isspace_def looks_callable_def
      startswith_def)

text \<open>
  Claim C7. \<open>_wrap_js_for_playwright\<close> is idempotent: for every string, applying it to its
  own output gives that output again.
\<close>

theorem wrap_js_idempotent:
  "wrap_js_for_playwright (wrap_js_for_playwright (VStr s)) = wrap_js_for_playwright (VStr s)"
  by (simp add: wrap_idem)

text \<open>
  The same holds for an argument that is not a string, which is handed back as it is.
\<close>

lemma wrap_js_idempotent_any:
  "wrap_js_for_playwright (wrap_js_for_playwright v) = wrap_js_for_playwright v"
  by (cases v) (simp_all add: wrap_idem)

section \<open>Safe mode, failures and the dispatcher\<close>

lemma except_Exception_no_Error:
  "except_Exception m (\<lambda>msg. ret (f msg)) w \<noteq> (Inl (Error cls s), w')"
  by (auto simp: except_Exception_def ret_def split: prod.splits sum.splits exn.splits)

lemma guarded_operations_no_Error:
  "click e self page sel w \<noteq> (Inl (Error cls s), w')"
  "fill e self page sel v w \<noteq> (Inl (Error cls s), w')"
  "submit e self page sel w \<noteq> (Inl (Error cls s), w')"
  "goto e self page u w \<noteq> (Inl (Error cls s), w')"
  "refresh e self page w \<noteq> (Inl (Error cls s), w')"
  "execute_js e self page js w \<noteq> (Inl (Error cls s), w')"
  "discover_forms e self page w \<noteq> (Inl (Error cls s), w')"
  unfolding click_def fill_def submit_def goto_def refresh_def execute_js_def discover_forms_def
  by (simp_all add: except_Exception_no_Error ret_def)

lemma execute_tool_no_Error:
  "fst (execute_tool i e self page text w) \<noteq> Inl (Error cls msg)"
  by (simp add: execute_tool_def split: prod.splits sum.splits exn.splits)

lemma takeWhile_ident_char:
  "list_all ident_char name \<Longrightarrow> \<not> ident_char c \<Longrightarrow>
   takeWhile ident_char (name @ c # r) = name \<and> dropWhile ident_char (name @ c # r) = c # r"
  by (induction name) simp_all

lemma takeWhile_ident_char_all:
  "list_all ident_char name \<Longrightarrow>
   takeWhile ident_char name = name \<and> dropWhile ident_char name = []"
  by (induction name) simp_all

lemma is_identifier_chars: "is_identifier name \<Longrightarrow> list_all ident_char name"
  by (cases name) (auto simp add: is_identifier_def ident_char_def)

lemma bracket_no_ident_char: "\<not> ident_char CHR ''(''"
  by (simp add: ident_char_def ascii_letter_def ascii_digit_def)

lemma parse_descriptor_name:
  assumes "is_identifier name"
  shows "parse_descriptor name = Some (GetAttr name)"
proof -
  have split: "takeWhile ident_char name = name" "dropWhile ident_char name = []"
    using takeWhile_ident_char_all [OF is_identifier_chars [OF assms]] by blast+
  show ?thesis
    using assms by (simp add: parse_descriptor_def split)
qed

lemma parse_descriptor_call:
  assumes "is_identifier name" and "parse_args inner = Some args"
  shows "parse_descriptor (name @ ''('' @ inner @ '')'') = Some (CallAttr name args)"
proof -
  have "takeWhile ident_char (name @ CHR ''('' # inner @ '')'') = name
      \<and> dropWhile ident_char (name @ CHR ''('' # inner @ '')'') = CHR ''('' # inner @ '')''"
    using is_identifier_chars [OF assms(1)] bracket_no_ident_char
    by (rule takeWhile_ident_char)
  then show ?thesis
    using assms by (simp add: parse_descriptor_def)
qed


lemma getattr_self_unknown:
  "name \<notin> set field_names \<Longrightarrow> name \<notin> set method_names \<Longrightarrow> \<not> builtin_attr i name \<Longrightarrow>
   getattr_self i self name = Some (Inl (Error ''AttributeError'' (no_attribute name)))"
  by (simp add: getattr_self_def field_names_def)





text \<open>
  A name with leading and trailing underscores that the interpreter does not know is
  answered like any other unknown name.
\<close>

lemma execute_tool_unknown_dunder:
  "execute_tool idle_interp idle_env (tools_init 7000 False) Page ''__foo__'' start_world =
     (Inr (VStr (''Error executing tool: '' @ no_attribute ''__foo__'')),
      tools_init 7000 False, start_world)"
proof -
  have "parse_descriptor ''__foo__'' = Some (GetAttr ''__foo__'')"
    by (rule parse_descriptor_name)
       (simp add: is_identifier_def ident_char_def ascii_letter_def ascii_digit_def
        py_keywords_def)
  moreover have "getattr_self idle_interp (tools_init 7000 False) ''__foo__'' =
      Some (Inl (Error ''AttributeError'' (no_attribute ''__foo__'')))"
    by (rule getattr_self_unknown)
       (simp_all add: field_names_def method_names_def idle_interp_def object_attr_names_def)
  ultimately show ?thesis
    by (simp add: execute_tool_def eval_self_def)
qed

text \<open>
  Reached through \<open>execute_tool\<close>, the error of \<open>presskey\<close> on a closed page comes back as
  a tagged string.
\<close>

lemma execute_tool_presskey_closed_page:
  "execute_tool idle_interp closed_page_env (tools_init 7000 False) Page
     (''presskey(page, '' @ [CHR 0x27] @ ''Enter'' @ [CHR 0x27] @ '')'') start_world =
     (Inr (VStr ''Error executing tool: Target page, context or browser has been closed''),
      tools_init 7000 False, start_world\<lparr>trace := [KeyboardPress ''Enter'']\<rparr>)"
proof -
  have args: "parse_args (''page, '' @ [CHR 0x27] @ ''Enter'' @ [CHR 0x27]) =
      Some [APage, AStr ''Enter'']"
    by (simp add: parse_args_def parse_more.simps parse_arg_def parse_string_literal_def
        parse_word_def plain_char_def ident_char_def ascii_letter_def ascii_digit_def)
  have "is_identifier ''presskey''"
    by (simp add: is_identifier_def ident_char_def ascii_letter_def ascii_digit_def
        py_keywords_def)
  from parse_descriptor_call [OF this args]
  have "parse_descriptor (''presskey(page, '' @ [CHR 0x27] @ ''Enter'' @ [CHR 0x27] @ '')'') =
      Some (CallAttr ''presskey'' [APage, AStr ''Enter''])"
    by simp
  then show ?thesis
    by (simp add: execute_tool_def eval_self_def getattr_self_def method_names_def
        call_method_def call_page_str_def presskey_def and_then_def page_attr_def ret_def
        invoke_def closed_page_env_def start_world_def)
qed

text \<open>
  Claim C2 at a failing input. \<open>presskey\<close> has no \<open>try\<close> block: on a closed page the error
  of \<open>page.keyboard.press\<close> reaches the caller, where \<open>click\<close>, \<open>fill\<close>, \<open>submit\<close>,
  \<open>goto\<close>, \<open>refresh\<close>, \<open>execute_js\<close> and \<open>discover_forms\<close> return a tagged string
  (\<open>guarded_operations_no_Error\<close>).
\<close>

theorem presskey_raises_on_closed_page:
  "presskey closed_page_env (tools_init 7000 False) Page ''Enter'' start_world =
     (Inl (Error ''TargetClosedError'' ''Target page, context or browser has been closed''),
      start_world\<lparr>trace := [KeyboardPress ''Enter'']\<rparr>)"
  by (simp add: presskey_def and_then_def page_attr_def ret_def invoke_def closed_page_env_def
      start_world_def)

text \<open>
  Claim C4. With safe mode on, \<open>click\<close>, \<open>fill\<close>, \<open>submit\<close> and \<open>python_interpreter\<close>
  each return a string that begins with \<open>SAFE_MODE:\<close> and leave the world as it was, so no
  call reaches the page, for every page, selector, value and code.
\<close>

theorem safe_mode_blocks_mutations:
  assumes "safe self"
  shows "tagged ''SAFE_MODE:'' (fst (click e self page sel w)) \<and> snd (click e self page sel w) = w
       \<and> tagged ''SAFE_MODE:'' (fst (fill e self page sel v w)) \<and> snd (fill e self page sel v w) = w
       \<and> tagged ''SAFE_MODE:'' (fst (submit e self page sel w)) \<and> snd (submit e self page sel w) = w
       \<and> tagged ''SAFE_MODE:'' (fst (python_interpreter e self code page w))
       \<and> snd (python_interpreter e self code page w) = w"
  using assms
  by (simp add: click_def fill_def submit_def python_interpreter_def ret_def tagged_def
      startswith_def)

text \<open>
  The theorem at the calls of \<open>test_safe_mode_blocks_mutations\<close>.
\<close>

theorem safe_mode_blocks_mutations_witness:
  "tagged ''SAFE_MODE:'' (fst (click idle_env (tools_init 7000 True) NoPage ''#id'' start_world))
   \<and> snd (click idle_env (tools_init 7000 True) NoPage ''#id'' start_world) = start_world
   \<and> snd (python_interpreter idle_env (tools_init 7000 True) ''print(1)'' Page start_world)
       = start_world"
proof -
  have "safe (tools_init 7000 True)"
    by (simp add: tools_init_def)
  from safe_mode_blocks_mutations [OF this] show ?thesis
    by blast
qed

text \<open>
  Once \<open>exec\<close> is reached, \<open>sys.stdout\<close> is put back whatever the executed code does:
  normal completion, an exception of either kind, a closed buffer or a reassigned
  \<open>sys.stdout\<close>.
\<close>

lemma python_interpreter_restores_stdout:
  assumes "exec_prelude e page
             (w\<lparr>sys_stdout := next_stream w, next_stream := Suc (next_stream w)\<rparr>) = (Inr facts, w2)"
  shows "sys_stdout (snd (python_interpreter e self code page w)) = sys_stdout w"
  using assms
  by (simp add: python_interpreter_def Let_def split: prod.splits option.splits exn.splits)

lemma python_interpreter_no_page_restores_stdout:
  "sys_stdout (snd (python_interpreter e self code NoPage w)) = sys_stdout w"
  by (rule python_interpreter_restores_stdout [where facts = "[]"])
     (simp add: exec_prelude_def ret_def)

text \<open>
  Claim C10 at a failing input. The entries of \<open>exec_globals\<close> are read from the page after
  \<open>sys.stdout\<close> has been redirected and before the \<open>try\<close> block starts. When
  \<open>page.context.cookies()\<close> raises, the call ends with \<open>sys.stdout\<close> still bound to the
  buffer.
\<close>

theorem python_interpreter_leaks_stdout:
  "sys_stdout start_world = 0
   \<and> python_interpreter closed_page_env (tools_init 7000 False) ''print(1)'' Page start_world =
       (Inl (Error ''TargetClosedError'' ''Target page, context or browser has been closed''),
        \<lparr>trace = [GetContext, GetContext, ContextCookies], sys_stdout = 1, next_stream = 2\<rparr>)"
  by (simp add: python_interpreter_def forbidden_def startswith_def exec_prelude_def and_then_def
      invoke_def closed_page_env_def tools_init_def start_world_def Let_def)

section \<open>Verdicts, file names and summaries\<close>

text \<open>
  Claim C3, as the code has it. \<open>parse_report\<close> returns a positive verdict exactly when the
  reply of the reasoning service contains \<open>yes\<close> somewhere; the reply is searched as it
  is, with no lower-casing.
\<close>

theorem parse_report_substring:
  assumes "reason [(''system'', parse_system_prompt), (''user'', report_text)] = Inr reply"
  shows "parse_report reason report_text = Inr (\<exists>p q. reply = p @ ''yes'' @ q)"
  using assms by (simp add: parse_report_def py_in_iff)

text \<open>
  The theorem at the reply \<open>eyes only\<close>, which is no affirmation and still counts as one.
\<close>

theorem parse_report_substring_witness:
  "parse_report (\<lambda>messages. Inr ''eyes only'') ''finding'' = Inr True"
proof -
  have "''eyes only'' = ''e'' @ ''yes'' @ '' only''"
    by simp
  then have "\<exists>p q. ''eyes only'' = p @ ''yes'' @ q"
    by blast
  then show ?thesis
    using parse_report_substring [of "\<lambda>messages. Inr ''eyes only''" "''finding''" "''eyes only''"]
    by simp
qed

text \<open>
  Claim C3 as it was stated fails at the reply \<open>YES\<close>: a search in the lower-cased copy
  finds the token, \<open>parse_report\<close> does not.
\<close>

theorem parse_report_case_counterexample:
  "spec_parse_verdict ''YES''
   \<and> parse_report (\<lambda>messages. Inr ''YES'') ''finding'' = Inr False"
proof -
  have "py_lower ''YES'' = ''yes''"
    by code_simp
  then have "spec_parse_verdict ''YES''"
    by (simp add: spec_parse_verdict_def startswith_def)
  moreover have "parse_report (\<lambda>messages. Inr ''YES'') ''finding'' = Inr False"
    by (simp add: parse_report_def startswith_def)
  ultimately show ?thesis
    by simp
qed




section \<open>The crawl summary\<close>

lemma set_urls_of:
  "set (urls_of rs) = {u. u \<noteq> [] \<and> (\<exists>r \<in> set rs. url r = Some u)}"
  by (induction rs) (auto split: option.splits)

text \<open>
  Claim C5, as the code has it. For requests that are one same-origin document request, one
  same-origin XHR request and one cross-origin script request, without third parties, the
  visited URLs are the document URL and the XHR URL, and the endpoints are exactly the XHR
  URL (each without its fragment).
\<close>

theorem crawl_summary_same_origin:
  assumes host: "netloc_of lib (starting_url self) = Some h"
    and reqs: "set requests = {d, x, s}"
    and d: "url d = Some ud" "ud \<noteq> []" "resource_type d = Some ''document''"
           "same_origin lib h ud"
    and x: "url x = Some ux" "ux \<noteq> []" "resource_type x = Some ''xhr''"
           "same_origin lib h ux"
    and s: "url s = Some us" "resource_type s = Some ''script''" "\<not> same_origin lib h us"
  shows "map_option (\<lambda>c. (set (visited_urls c), set (js_endpoints c)))
           (generate_safe_crawl_summary lib self requests False) =
         Some ({canon lib ud, canon lib ux}, {canon lib ux})"
proof -
  have all: "{u \<in> set (urls_of requests). same_origin lib h u} = {ud, ux}"
    using reqs d x s by (auto simp add: set_urls_of)
  have "set (filter (\<lambda>r. resource_type r = Some ''xhr'' \<or> resource_type r = Some ''fetch'')
               requests) = {x}"
    using reqs d x s by auto
  then have "set (urls_of (filter (\<lambda>r. resource_type r = Some ''xhr''
                 \<or> resource_type r = Some ''fetch'') requests)) = {ux}"
    using x by (auto simp add: set_urls_of)
  then have ep: "{u \<in> set (urls_of (filter (\<lambda>r. resource_type r = Some ''xhr''
                 \<or> resource_type r = Some ''fetch'') requests)). same_origin lib h u} = {ux}"
    using x by auto
  show ?thesis
    using host all ep by (simp add: generate_safe_crawl_summary_def Let_def)
qed

lemma fake_hosts:
  "netloc_of plain_urllib ''https://example.com'' = Some ''example.com''"
  "same_origin plain_urllib ''example.com'' ''https://example.com/''"
  "same_origin plain_urllib ''example.com'' ''https://example.com/api/data''"
  "\<not> same_origin plain_urllib ''example.com'' ''https://cdn.example.org/lib.js''"
  "canon plain_urllib ''https://example.com/'' = ''https://example.com/''"
  "canon plain_urllib ''https://example.com/api/data'' = ''https://example.com/api/data''"
  by (simp_all add: plain_urllib_def plain_netloc_def plain_urldefrag_def same_origin_def
      canon_def after_scheme_def startswith_def scheme_char_def ascii_alpha_def)

text \<open>
  The theorem at the requests of \<open>FakeProxy\<close>.
\<close>

theorem crawl_summary_same_origin_witness:
  "map_option (\<lambda>c. (set (visited_urls c), set (js_endpoints c)))
     (generate_safe_crawl_summary plain_urllib (reporter_init ''https://example.com'' ''out'')
        fake_proxy_requests False) =
   Some ({''https://example.com/'', ''https://example.com/api/data''},
         {''https://example.com/api/data''})"
proof -
  let ?d = "\<lparr>url = Some ''https://example.com/'', resource_type = Some ''document''\<rparr>"
  let ?x = "\<lparr>url = Some ''https://example.com/api/data'', resource_type = Some ''xhr''\<rparr>"
  let ?s = "\<lparr>url = Some ''https://cdn.example.org/lib.js'', resource_type = Some ''script''\<rparr>"
  have host: "netloc_of plain_urllib (starting_url (reporter_init ''https://example.com'' ''out''))
                = Some ''example.com''"
    by (simp add: reporter_init_def fake_hosts)
  have reqs: "set fake_proxy_requests = {?d, ?x, ?s}"
    by (simp add: fake_proxy_requests_def)
  from crawl_summary_same_origin [OF host reqs, of "''https://example.com/''"
      "''https://example.com/api/data''" "''https://cdn.example.org/lib.js''"]
  show ?thesis
    by (simp add: fake_hosts)
qed

text \<open>
  Claim C5 as it was stated fails at the same requests: the visited URLs hold the XHR URL
  next to the document URL.
\<close>

theorem crawl_summary_visited_counterexample:
  "map_option visited_urls
     (generate_safe_crawl_summary plain_urllib (reporter_init ''https://example.com'' ''out'')
        fake_proxy_requests False) =
   Some [''https://example.com/'', ''https://example.com/api/data'']
   \<and> map_option visited_urls
     (generate_safe_crawl_summary plain_urllib (reporter_init ''https://example.com'' ''out'')
        fake_proxy_requests False) \<noteq>
   Some [''https://example.com/'']"
  by (simp add: generate_safe_crawl_summary_def reporter_init_def fake_proxy_requests_def
      fake_hosts Let_def)

section \<open>The summary report\<close>

lemma reporter_init_fields:
  "output_dir (reporter_init u d) = path_of d"
  "starting_url (reporter_init u d) = u"
  "reports (reporter_init u d) = []"
  by (simp_all add: reporter_init_def)


lemma filename_no_separator: "CHR ''/'' \<notin> set (filename (reporter_init u d))"
  by (auto simp add: reporter_init_def replace_str_char)

lemma path_root_relative: "CHR ''/'' \<notin> set s \<Longrightarrow> path_root s = []"
  by (cases s) (auto simp add: path_root_def startswith_def)





text \<open>
  The file that is read is always looked for under \<open>security_results\<close>: with any other
  output directory it is not the file that \<open>save_reports\<close> writes.
\<close>

lemma summary_ignores_output_dir:
  assumes "path_of dir \<noteq> path_of ''security_results''"
  shows "summary_source_path (reporter_init u dir) \<noteq> report_path (reporter_init u dir)"
proof -
  have "CHR ''/'' \<notin> set (filename (reporter_init u dir) @ ''.txt'')"
    using filename_no_separator [of u dir] by simp
  then have "path_root (filename (reporter_init u dir) @ ''.txt'') = []"
    by (rule path_root_relative)
  then show ?thesis
    using assms
    by (auto simp add: summary_source_path_def report_path_def path_join_def
        reporter_init_fields prod_eq_iff)
qed

end
